theory Spec2Isabelle
  imports Main "HOL-Library.Word"
begin

section \<open>The files the server reads\<close>

text \<open>
  The server of \<^verbatim>\<open>server.py\<close> keeps no state of its own: everything it answers comes
  from the directory it runs in. That directory is a tree of nodes, a regular file with
  its bytes or a directory with its named entries. The entries are an association list,
  so that a listing has an order (the one \<^verbatim>\<open>os.listdir\<close> happens to give); a lookup
  takes the first entry of a name. Relative paths of the program (\<^verbatim>\<open>'data'\<close>,
  \<^verbatim>\<open>'.'\<close>) and the application's root path are taken to be this one directory, as when
  the program is started from the directory that holds it.

  Every node says whether the process of the server may read it: the bytes of a file, the
  names of the entries of a directory. Going through a directory to what lies below it
  asks for the search permission instead, which the directories of the tree are taken to
  grant; so a directory that is not readable still has its entries looked up, and only
  its listing is refused.
\<close>

type_synonym bytes = "8 word list"

datatype access = Readable | Unreadable

datatype node = File access bytes | Dir access "(string \<times> node) list"

text \<open>Python's \<^verbatim>\<open>str.split(sep)\<close> for a one-character separator, \<^verbatim>\<open>sep.join\<close>,
  \<^verbatim>\<open>str.startswith\<close> and \<^verbatim>\<open>str.endswith\<close>.\<close>

fun split_sep :: "char \<Rightarrow> string \<Rightarrow> string list" where
  "split_sep s [] = [[]]"
| "split_sep s (c # cs) =
     (if c = s then [] # split_sep s cs
      else (case split_sep s cs of [] \<Rightarrow> [[c]] | w # ws \<Rightarrow> (c # w) # ws))"

fun join_sep :: "string \<Rightarrow> string list \<Rightarrow> string" where
  "join_sep s [] = []"
| "join_sep s [w] = w"
| "join_sep s (w # ws) = w @ s @ join_sep s ws"

definition startswith :: "string \<Rightarrow> string \<Rightarrow> bool" where
  "startswith s pre = (take (length pre) s = pre)"

definition endswith :: "string \<Rightarrow> string \<Rightarrow> bool" where
  "endswith s suf = (length suf \<le> length s \<and> drop (length s - length suf) s = suf)"

text \<open>
  Resolution of a relative path by the operating system, one component at a time. Empty
  components and \<^verbatim>\<open>.\<close> stay where they are (in a directory only), \<^verbatim>\<open>..\<close> steps back
  to the directory the walk came from. The empty path, absolute paths and whatever lies
  above the server's directory are outside the tree and resolve to nothing.
\<close>

fun walk :: "node list \<Rightarrow> node \<Rightarrow> string list \<Rightarrow> node option" where
  "walk anc cur [] = Some cur"
| "walk anc cur (c # cs) =
     (case cur of
        File a b \<Rightarrow> None
      | Dir a es \<Rightarrow>
          if c = [] \<or> c = ''.'' then walk anc cur cs
          else if c = ''..'' then (case anc of [] \<Rightarrow> None | p # ps \<Rightarrow> walk ps p cs)
          else (case map_of es c of None \<Rightarrow> None | Some n \<Rightarrow> walk (cur # anc) n cs))"

definition resolve :: "node \<Rightarrow> string \<Rightarrow> node option" where
  "resolve fs p =
     (if p = [] \<or> startswith p ''/'' then None else walk [] fs (split_sep (CHR ''/'') p))"

section \<open>Exceptions and effects\<close>

text \<open>
  The exceptions that the calls of the program can raise. \<open>NotFound\<close> is Werkzeug's HTTP
  exception of code 404; it is not a subclass of \<^verbatim>\<open>FileNotFoundError\<close>, nor the other
  way round. The others are subclasses of \<^verbatim>\<open>OSError\<close>, none of another. A
  computation takes the file tree and returns a value or an exception,
  together with the file tree it leaves behind.
\<close>

datatype exn = FileNotFoundError | NotADirectoryError | IsADirectoryError
  | PermissionError | FileExistsError | NotFound

type_synonym 'a io = "node \<Rightarrow> (exn + 'a) \<times> node"

definition return_io :: "'a \<Rightarrow> 'a io" where
  "return_io v fs = (Inr v, fs)"

definition raise_io :: "exn \<Rightarrow> 'a io" where
  "raise_io e fs = (Inl e, fs)"

definition bind_io :: "'a io \<Rightarrow> ('a \<Rightarrow> 'b io) \<Rightarrow> 'b io" where
  "bind_io m f fs = (case m fs of (Inl e, fs') \<Rightarrow> (Inl e, fs') | (Inr v, fs') \<Rightarrow> f v fs')"

text \<open>\<^verbatim>\<open>try: m  except FileNotFoundError: h\<close>: any other exception passes through.\<close>

definition except_FileNotFoundError :: "'a io \<Rightarrow> 'a io \<Rightarrow> 'a io" where
  "except_FileNotFoundError m h fs =
     (case m fs of
        (Inl e, fs') \<Rightarrow> if e = FileNotFoundError then h fs' else (Inl e, fs')
      | (Inr v, fs') \<Rightarrow> (Inr v, fs'))"

subsection \<open>The calls into \<^verbatim>\<open>os\<close>\<close>

text \<open>
  \<^verbatim>\<open>os.path.exists\<close> and \<^verbatim>\<open>os.path.isfile\<close> ask for the status of a path and
  raise nothing. \<^verbatim>\<open>os.listdir\<close> opens the directory to read its entries: it raises when
  there is nothing of that name, when the name is not a directory's, and when the
  directory may not be read.
\<close>

definition os_path_exists :: "string \<Rightarrow> bool io" where
  "os_path_exists p fs = (Inr (resolve fs p \<noteq> None), fs)"

definition os_path_isfile :: "string \<Rightarrow> bool io" where
  "os_path_isfile p fs = (Inr (case resolve fs p of Some (File a b) \<Rightarrow> True | _ \<Rightarrow> False), fs)"

definition os_listdir :: "string \<Rightarrow> string list io" where
  "os_listdir p fs =
     (case resolve fs p of
        None \<Rightarrow> (Inl FileNotFoundError, fs)
      | Some (File a b) \<Rightarrow> (Inl NotADirectoryError, fs)
      | Some (Dir a es) \<Rightarrow>
          if a = Readable then (Inr (map fst es), fs) else (Inl PermissionError, fs))"

text \<open>\<^verbatim>\<open>open(p, 'rb').read()\<close>; a file that may not be read is not opened.\<close>

definition read_file :: "string \<Rightarrow> bytes io" where
  "read_file p fs =
     (case resolve fs p of
        None \<Rightarrow> (Inl FileNotFoundError, fs)
      | Some (Dir a es) \<Rightarrow> (Inl IsADirectoryError, fs)
      | Some (File a b) \<Rightarrow>
          if a = Readable then (Inr b, fs) else (Inl PermissionError, fs))"

text \<open>
  \<^verbatim>\<open>os.makedirs\<close>, the one call of the program that writes: it creates the directory
  named by the components, and the missing directories on the way. The new entry goes to
  the end of its parent's entries.
\<close>

fun set_entry :: "(string \<times> node) list \<Rightarrow> string \<Rightarrow> node \<Rightarrow> (string \<times> node) list" where
  "set_entry [] k v = [(k, v)]"
| "set_entry ((k', v') # es) k v =
     (if k' = k then (k, v) # es else (k', v') # set_entry es k v)"

fun makedirs_at :: "node option \<Rightarrow> string list \<Rightarrow> exn + node" where
  "makedirs_at None [] = Inr (Dir Readable [])"
| "makedirs_at (Some n) [] = Inl FileExistsError"
| "makedirs_at None (c # cs) =
     (case makedirs_at None cs of Inl e \<Rightarrow> Inl e | Inr ch \<Rightarrow> Inr (Dir Readable [(c, ch)]))"
| "makedirs_at (Some (File a b)) (c # cs) = Inl NotADirectoryError"
| "makedirs_at (Some (Dir a es)) (c # cs) =
     (case makedirs_at (map_of es c) cs of
        Inl e \<Rightarrow> Inl e
      | Inr ch \<Rightarrow> Inr (Dir a (set_entry es c ch)))"

definition os_makedirs :: "string \<Rightarrow> unit io" where
  "os_makedirs p fs =
     (case makedirs_at (Some fs)
             (filter (\<lambda>c. c \<noteq> [] \<and> c \<noteq> ''.'') (split_sep (CHR ''/'') p)) of
        Inl e \<Rightarrow> (Inl e, fs)
      | Inr fs' \<Rightarrow> (Inr (), fs'))"

section \<open>Werkzeug and Flask\<close>

text \<open>
  \<^verbatim>\<open>posixpath.normpath\<close>: the loop over the components, with the count of leading
  slashes the standard keeps (none, one or two), then the function.
\<close>

fun normpath_comps :: "nat \<Rightarrow> string list \<Rightarrow> string list \<Rightarrow> string list" where
  "normpath_comps initial_slashes new_comps [] = new_comps"
| "normpath_comps initial_slashes new_comps (c # cs) =
     (if c = [] \<or> c = ''.'' then normpath_comps initial_slashes new_comps cs
      else if c \<noteq> ''..'' \<or> (initial_slashes = 0 \<and> new_comps = [])
              \<or> (new_comps \<noteq> [] \<and> last new_comps = ''..'')
        then normpath_comps initial_slashes (new_comps @ [c]) cs
      else if new_comps \<noteq> [] then normpath_comps initial_slashes (butlast new_comps) cs
      else normpath_comps initial_slashes new_comps cs)"

definition normpath :: "string \<Rightarrow> string" where
  "normpath path =
     (if path = [] then ''.''
      else
        let initial_slashes =
              (if startswith path ''/''
               then (if startswith path ''//'' \<and> \<not> startswith path ''///'' then 2 else 1)
               else (0::nat));
            comps = normpath_comps initial_slashes [] (split_sep (CHR ''/'') path);
            path' = replicate initial_slashes (CHR ''/'') @ join_sep ''/'' comps
        in if path' = [] then ''.'' else path')"

text \<open>\<^verbatim>\<open>posixpath.join\<close> of two paths.\<close>

definition posix_join :: "string \<Rightarrow> string \<Rightarrow> string" where
  "posix_join a b =
     (if startswith b ''/'' then b
      else if a = [] \<or> endswith a ''/'' then a @ b
      else a @ ''/'' @ b)"

text \<open>
  \<^verbatim>\<open>werkzeug.security.safe_join\<close> on a POSIX system (no alternative separators): the
  untrusted name is normalised and refused when it is absolute or leaves the directory.
\<close>

definition safe_join :: "string \<Rightarrow> string \<Rightarrow> string option" where
  "safe_join directory filename =
     (let directory = (if directory = [] then ''.'' else directory);
          filename = (if filename \<noteq> [] then normpath filename else filename)
      in if startswith filename ''/'' \<or> filename = ''..'' \<or> startswith filename ''../''
         then None
         else Some (posix_join directory filename))"

text \<open>
  A response: the status code, the media type, the body and the further headers. A body
  is a JSON document (of \<^verbatim>\<open>jsonify\<close>), the bytes of a file, or the traceback page of
  the development server's debugger.
\<close>

datatype json = JStr string | JList "json list" | JObj "(string \<times> json) list"

datatype body = JsonBody json | FileBody bytes | DebuggerPage exn

record response =
  status :: nat
  mimetype :: string
  body :: body
  headers :: "(string \<times> string) list"

definition jsonify :: "json \<Rightarrow> response" where
  "jsonify j = \<lparr>status = 200, mimetype = ''application/json'', body = JsonBody j, headers = []\<rparr>"

text \<open>A view that returns \<^verbatim>\<open>response, code\<close>: Flask sets the status of the response.\<close>

definition with_status :: "response \<Rightarrow> nat \<Rightarrow> response" where
  "with_status r code = r\<lparr>status := code\<rparr>"

text \<open>\<^verbatim>\<open>mimetypes.guess_type\<close>, for the two extensions of the program's files; Werkzeug
  falls back to \<^verbatim>\<open>application/octet-stream\<close>.\<close>

definition guess_type :: "string \<Rightarrow> string" where
  "guess_type p =
     (if endswith p ''.html'' then ''text/html''
      else if endswith p ''.csv'' then ''text/csv''
      else ''application/octet-stream'')"

text \<open>
  \<^verbatim>\<open>send_file\<close> opens the file and answers 200 with its bytes, for a plain request (no
  conditional or range headers). \<^verbatim>\<open>send_from_directory\<close> joins the name to the
  directory safely and raises \<open>NotFound\<close> when the join fails or the result is not a
  regular file.
\<close>

definition send_file :: "string \<Rightarrow> string option \<Rightarrow> response io" where
  "send_file p mt =
     bind_io (read_file p) (\<lambda>b.
       return_io \<lparr>status = 200,
                  mimetype = (case mt of None \<Rightarrow> guess_type p | Some m \<Rightarrow> m),
                  body = FileBody b, headers = []\<rparr>)"

definition send_from_directory :: "string \<Rightarrow> string \<Rightarrow> string option \<Rightarrow> response io" where
  "send_from_directory directory path mt =
     (case safe_join directory path of
        None \<Rightarrow> raise_io NotFound
      | Some path_str \<Rightarrow>
          bind_io (os_path_isfile path_str) (\<lambda>isfile.
            if \<not> isfile then raise_io NotFound else send_file path_str mt))"

section \<open>The program\<close>

definition DATA_DIR :: string where
  "DATA_DIR = ''data''"

definition HTML_FILE :: string where
  "HTML_FILE = ''index.html''"

text \<open>Lines 19 to 21, run once when the module is loaded.\<close>

definition startup :: "unit io" where
  "startup =
     bind_io (os_path_exists DATA_DIR) (\<lambda>ex.
       if \<not> ex then os_makedirs DATA_DIR else return_io ())"

text \<open>The three views.\<close>

definition index :: "response io" where
  "index =
     except_FileNotFoundError
       (send_from_directory ''.'' HTML_FILE None)
       (return_io (with_status (jsonify (JObj [(''error'', JStr ''index.html not found'')])) 404))"

definition serve_csv :: "string \<Rightarrow> response io" where
  "serve_csv filename =
     (if \<not> endswith filename ''.csv''
      then return_io (with_status (jsonify (JObj [(''error'', JStr ''Only CSV files allowed'')])) 403)
      else
        except_FileNotFoundError
          (send_from_directory DATA_DIR filename (Some ''text/csv''))
          (return_io (with_status
             (jsonify (JObj [(''error'', JStr (filename @ '' not found''))])) 404)))"

definition health :: "response io" where
  "health =
     bind_io (os_path_exists DATA_DIR) (\<lambda>ex.
       bind_io (if ex then os_listdir DATA_DIR else return_io []) (\<lambda>data_files.
         return_io (jsonify (JObj
           [(''status'', JStr ''healthy''),
            (''version'', JStr ''3.0''),
            (''data_files'', JList (map JStr data_files))]))))"

text \<open>The two error handlers; neither looks at the error it is given.\<close>

definition not_found :: "exn \<Rightarrow> response" where
  "not_found error = with_status (jsonify (JObj [(''error'', JStr ''Resource not found'')])) 404"

definition internal_error :: "exn \<Rightarrow> response" where
  "internal_error error =
     with_status (jsonify (JObj [(''error'', JStr ''Internal server error'')])) 500"

subsection \<open>Requests through the application\<close>

text \<open>
  A GET request after routing: one of the three routes of the program, with the segment
  the rule \<^verbatim>\<open>/api/<filename>\<close> has bound, or a URL that no rule matches. A request may
  name its origin.
\<close>

datatype request = GetIndex | GetApi string | GetHealth | NoRoute

definition dispatch_request :: "request \<Rightarrow> response io" where
  "dispatch_request req =
     (case req of
        GetIndex \<Rightarrow> index
      | GetApi filename \<Rightarrow> serve_csv filename
      | GetHealth \<Rightarrow> health
      | NoRoute \<Rightarrow> raise_io NotFound)"

text \<open>
  \<^verbatim>\<open>CORS(app)\<close> with its default options: after every request of the application, the
  response gets the header \<^verbatim>\<open>Access-Control-Allow-Origin\<close>, with the request's origin
  or, when the request names none or an empty one, the wildcard.
\<close>

definition cors_after_request :: "string option \<Rightarrow> response \<Rightarrow> response" where
  "cors_after_request origin r =
     r\<lparr>headers := headers r @
        [(''Access-Control-Allow-Origin'',
          (case origin of None \<Rightarrow> ''*'' | Some org \<Rightarrow> if org = [] then ''*'' else org))]\<rparr>"

text \<open>
  Flask's handling of an exception that a view raises. An HTTP exception goes to the
  handler registered for its code. Any other exception goes to the handler registered
  for 500, unless the application propagates exceptions, as it does in debug mode: then
  the exception leaves the application.
\<close>

definition handle_exception :: "bool \<Rightarrow> exn \<Rightarrow> exn + response" where
  "handle_exception debug e =
     (if e = NotFound then Inr (not_found e)
      else if debug then Inl e
      else Inr (internal_error e))"

definition wsgi_app :: "bool \<Rightarrow> string option \<Rightarrow> request \<Rightarrow> response io" where
  "wsgi_app debug origin req fs =
     (case dispatch_request req fs of
        (Inr r, fs') \<Rightarrow> (Inr (cors_after_request origin r), fs')
      | (Inl e, fs') \<Rightarrow>
          (case handle_exception debug e of
             Inl e' \<Rightarrow> (Inl e', fs')
           | Inr r \<Rightarrow> (Inr (cors_after_request origin r), fs')))"

text \<open>
  The server around the application. An exception that leaves the application is
  answered by the server itself: the development server of \<^verbatim>\<open>app.run(debug=True)\<close>
  (line 92) sends the debugger's traceback page with status 500.
\<close>

definition serve :: "bool \<Rightarrow> string option \<Rightarrow> request \<Rightarrow> node \<Rightarrow> response \<times> node" where
  "serve debug origin req fs =
     (case wsgi_app debug origin req fs of
        (Inr r, fs') \<Rightarrow> (r, fs')
      | (Inl e, fs') \<Rightarrow>
          (\<lparr>status = 500, mimetype = ''text/html'', body = DebuggerPage e, headers = []\<rparr>, fs'))"

section \<open>What the calls of the program do\<close>

text \<open>
  \<^verbatim>\<open>send_from_directory\<close> answers 200 with the bytes of a regular file, raises
  \<^verbatim>\<open>PermissionError\<close> when that file may not be read, and raises \<open>NotFound\<close> in every
  other case: the test for a regular file comes before the file is opened. It leaves the
  file tree as it is.
\<close>

lemma send_from_directory_eq:
  "send_from_directory d p mt fs =
     (case safe_join d p of
        None \<Rightarrow> (Inl NotFound, fs)
      | Some q \<Rightarrow>
          (case resolve fs q of
             Some (File a b) \<Rightarrow>
               if a = Readable
               then (Inr \<lparr>status = 200,
                          mimetype = (case mt of None \<Rightarrow> guess_type q | Some m \<Rightarrow> m),
                          body = FileBody b, headers = []\<rparr>, fs)
               else (Inl PermissionError, fs)
           | _ \<Rightarrow> (Inl NotFound, fs)))"
  by (simp add: send_from_directory_def send_file_def bind_io_def raise_io_def return_io_def
      os_path_isfile_def read_file_def split: option.splits node.splits)

lemma send_from_directory_raises:
  "fst (send_from_directory d p mt fs) \<noteq> Inl FileNotFoundError"
  by (simp add: send_from_directory_eq split: option.splits node.splits)

lemma send_from_directory_frame: "snd (send_from_directory d p mt fs) = fs"
  by (simp add: send_from_directory_eq split: option.splits node.splits)

lemma except_unused:
  "fst (m fs) \<noteq> Inl FileNotFoundError \<Longrightarrow> except_FileNotFoundError m h fs = m fs"
  by (cases "m fs") (auto simp: except_FileNotFoundError_def split: sum.splits)

lemma index_eq: "index fs = send_from_directory ''.'' HTML_FILE None fs"
  by (simp add: index_def except_unused send_from_directory_raises)

lemma serve_csv_eq:
  "serve_csv filename fs =
     (if endswith filename ''.csv''
      then send_from_directory DATA_DIR filename (Some ''text/csv'') fs
      else (Inr \<lparr>status = 403, mimetype = ''application/json'',
                  body = JsonBody (JObj [(''error'', JStr ''Only CSV files allowed'')]),
                  headers = []\<rparr>, fs))"
  by (simp add: serve_csv_def except_unused send_from_directory_raises return_io_def
      with_status_def jsonify_def)

text \<open>
  \<open>health\<close> answers with the listing, or with no entries when nothing is named
  \<^verbatim>\<open>data\<close>; it raises what \<^verbatim>\<open>os.listdir\<close> raises when \<^verbatim>\<open>data\<close> is a regular
  file or a directory that may not be read.
\<close>

lemma health_eq:
  "health fs =
     (case resolve fs DATA_DIR of
        None \<Rightarrow>
          (Inr (jsonify (JObj
             [(''status'', JStr ''healthy''),
              (''version'', JStr ''3.0''),
              (''data_files'', JList [])])), fs)
      | Some (File a b) \<Rightarrow> (Inl NotADirectoryError, fs)
      | Some (Dir a es) \<Rightarrow>
          if a = Readable
          then (Inr (jsonify (JObj
                  [(''status'', JStr ''healthy''),
                   (''version'', JStr ''3.0''),
                   (''data_files'', JList (map JStr (map fst es)))])), fs)
          else (Inl PermissionError, fs))"
  by (simp add: health_def bind_io_def os_path_exists_def os_listdir_def return_io_def
      split: option.splits node.splits)

lemma health_raises:
  assumes "fst (os_path_exists DATA_DIR fs) = Inr True"
    and "fst (os_listdir DATA_DIR fs) = Inl e"
  shows "health fs = (Inl e, fs)"
  using assms
  by (auto simp: health_eq os_path_exists_def os_listdir_def
      split: option.splits node.splits if_splits)

lemma dispatch_frame: "snd (dispatch_request req fs) = fs"
  by (cases req)
     (simp_all add: dispatch_request_def index_eq serve_csv_eq health_eq
        send_from_directory_frame raise_io_def split: option.splits node.splits)

lemma wsgi_app_frame: "snd (wsgi_app debug origin req fs) = fs"
  using dispatch_frame [of req fs]
  by (cases "dispatch_request req fs")
     (auto simp: wsgi_app_def split: sum.splits)

lemma serve_frame: "snd (serve debug origin req fs) = fs"
  using wsgi_app_frame [of debug origin req fs]
  by (cases "wsgi_app debug origin req fs")
     (auto simp: serve_def split: sum.splits)


text \<open>
  What a view gives back: a response of status 200 or 403 without headers of its own, or
  one of three exceptions.
\<close>

lemma dispatch_request_cases:
  "(\<exists>r. dispatch_request req fs = (Inr r, fs) \<and> (status r = 200 \<or> status r = 403)
         \<and> headers r = [])
   \<or> dispatch_request req fs = (Inl NotFound, fs)
   \<or> dispatch_request req fs = (Inl NotADirectoryError, fs)
   \<or> dispatch_request req fs = (Inl PermissionError, fs)"
  by (cases req)
     (auto simp: dispatch_request_def index_eq serve_csv_eq health_eq send_from_directory_eq
        raise_io_def jsonify_def split: option.splits node.splits)

text \<open>
  Names of one segment, as the rule of the data files binds them, are joined to the data
  directory as they are.
\<close>

lemma split_sep_plain: "s \<notin> set w \<Longrightarrow> split_sep s w = [w]"
  by (induction w) auto

lemma endswith_csv_length: "endswith w ''.csv'' \<Longrightarrow> 4 \<le> length w"
  by (simp add: endswith_def)

lemma plain_not_startswith:
  "CHR ''/'' \<notin> set w \<Longrightarrow> \<not> startswith w ''/'' \<and> \<not> startswith w ''../''"
  by (cases w; cases "tl w"; cases "tl (tl w)") (auto simp: startswith_def)

lemma normpath_plain:
  assumes "CHR ''/'' \<notin> set w" "w \<noteq> []" "w \<noteq> ''.''" "w \<noteq> ''..''"
  shows "normpath w = w"
  using assms plain_not_startswith [of w]
  by (simp add: normpath_def split_sep_plain)

lemma safe_join_plain:
  assumes "CHR ''/'' \<notin> set w" "endswith w ''.csv''"
  shows "safe_join DATA_DIR w = Some (DATA_DIR @ ''/'' @ w)"
proof -
  from assms(2) have len: "4 \<le> length w" by (rule endswith_csv_length)
  then have ne: "w \<noteq> []" "w \<noteq> ''.''" "w \<noteq> ''..''" by auto
  with assms(1) have "normpath w = w" by (simp add: normpath_plain)
  with ne plain_not_startswith [OF assms(1)] show ?thesis
    by (simp add: safe_join_def DATA_DIR_def posix_join_def endswith_def)
qed

lemma safe_join_html: "safe_join ''.'' HTML_FILE = Some ''./index.html''"
  by (simp add: safe_join_def HTML_FILE_def normpath_def startswith_def posix_join_def
      endswith_def)

lemma resolve_dot_html: "resolve fs ''./index.html'' = resolve fs HTML_FILE"
  by (cases fs) (simp_all add: resolve_def startswith_def HTML_FILE_def)

section \<open>The data files\<close>

text \<open>
  C1. For every name that does not end in \<^verbatim>\<open>.csv\<close>, \<open>serve_csv\<close> answers 403 with
  the JSON body \<^verbatim>\<open>{"error": "Only CSV files allowed"}\<close>. The answer is the same
  whatever the files are, so no file is read, and none is changed.
\<close>

theorem serve_csv_forbidden:
  assumes "\<not> endswith filename ''.csv''"
  shows "serve_csv filename fs =
           (Inr \<lparr>status = 403, mimetype = ''application/json'',
                  body = JsonBody (JObj [(''error'', JStr ''Only CSV files allowed'')]),
                  headers = []\<rparr>, fs)
         \<and> status (fst (serve debug origin (GetApi filename) fs)) = 403
         \<and> body (fst (serve debug origin (GetApi filename) fs)) =
             JsonBody (JObj [(''error'', JStr ''Only CSV files allowed'')])"
  using assms
  by (simp add: serve_csv_eq serve_def wsgi_app_def dispatch_request_def cors_after_request_def)

theorem serve_csv_forbidden_witness:
  "\<not> endswith ''notes.txt'' ''.csv''
   \<and> serve_csv ''notes.txt'' (Dir Readable [(''data'', Dir Readable [(''notes.txt'', File Readable [104, 105])])]) =
       (Inr \<lparr>status = 403, mimetype = ''application/json'',
              body = JsonBody (JObj [(''error'', JStr ''Only CSV files allowed'')]),
              headers = []\<rparr>, Dir Readable [(''data'', Dir Readable [(''notes.txt'', File Readable [104, 105])])])"
proof -
  have h: "\<not> endswith ''notes.txt'' ''.csv''" by (simp add: endswith_def)
  from serve_csv_forbidden [OF h] h show ?thesis by simp
qed



text \<open>
  C3. The test of the suffix is the only check of \<open>serve_csv\<close>: for every name that ends
  in \<^verbatim>\<open>.csv\<close>, a name such as \<^verbatim>\<open>../secret.csv\<close> included, the view answers what
  \<^verbatim>\<open>send_from_directory\<close> answers for that name in the data directory, and the
  response is never the 403.
\<close>

theorem serve_csv_suffix_only:
  assumes "endswith filename ''.csv''"
  shows "serve_csv filename fs = send_from_directory DATA_DIR filename (Some ''text/csv'') fs
         \<and> status (fst (serve debug origin (GetApi filename) fs)) \<noteq> 403"
  using assms
  by (simp add: serve_csv_eq serve_def wsgi_app_def dispatch_request_def cors_after_request_def
      send_from_directory_eq handle_exception_def not_found_def internal_error_def
      with_status_def jsonify_def split: option.splits node.splits)

theorem serve_csv_suffix_only_witness:
  "endswith ''../secret.csv'' ''.csv''
   \<and> serve_csv ''../secret.csv'' (Dir Readable [(''data'', Dir Readable [])]) =
       send_from_directory DATA_DIR ''../secret.csv'' (Some ''text/csv'') (Dir Readable [(''data'', Dir Readable [])])
   \<and> status (fst (serve True None (GetApi ''../secret.csv'') (Dir Readable [(''data'', Dir Readable [])]))) \<noteq> 403"
proof -
  have h: "endswith ''../secret.csv'' ''.csv''" by (simp add: endswith_def)
  from serve_csv_suffix_only [OF h] h show ?thesis by simp
qed

text \<open>
  C5. A name that ends in \<^verbatim>\<open>.csv\<close>, is one segment of a path and does not name a
  regular file of the data directory is answered 404 with a JSON body that has an
  \<^verbatim>\<open>error\<close> message: the one of the application's handler for 404.
\<close>

theorem serve_csv_missing:
  assumes "endswith filename ''.csv''"
    and "CHR ''/'' \<notin> set filename"
    and "fst (os_path_isfile (DATA_DIR @ ''/'' @ filename) fs) = Inr False"
  shows "status (fst (serve debug origin (GetApi filename) fs)) = 404
         \<and> body (fst (serve debug origin (GetApi filename) fs)) =
             JsonBody (JObj [(''error'', JStr ''Resource not found'')])"
proof -
  from assms(3) have "\<forall>a b. resolve fs (DATA_DIR @ ''/'' @ filename) \<noteq> Some (File a b)"
    by (auto simp: os_path_isfile_def)
  with assms(1,2) have "serve_csv filename fs = (Inl NotFound, fs)"
    by (auto simp: serve_csv_eq send_from_directory_eq safe_join_plain
        split: option.splits node.splits)
  then show ?thesis
    by (simp add: serve_def wsgi_app_def dispatch_request_def handle_exception_def
        not_found_def with_status_def jsonify_def cors_after_request_def)
qed

theorem serve_csv_missing_witness:
  "endswith ''Missing.csv'' ''.csv'' \<and> CHR ''/'' \<notin> set ''Missing.csv''
   \<and> fst (os_path_isfile (DATA_DIR @ ''/'' @ ''Missing.csv'') (Dir Readable [(''data'', Dir Readable [])])) = Inr False
   \<and> status (fst (serve True None (GetApi ''Missing.csv'') (Dir Readable [(''data'', Dir Readable [])]))) = 404
   \<and> body (fst (serve True None (GetApi ''Missing.csv'') (Dir Readable [(''data'', Dir Readable [])]))) =
       JsonBody (JObj [(''error'', JStr ''Resource not found'')])"
proof -
  have h1: "endswith ''Missing.csv'' ''.csv''" by (simp add: endswith_def)
  have h2: "CHR ''/'' \<notin> set ''Missing.csv''" by simp
  have h3: "fst (os_path_isfile (DATA_DIR @ ''/'' @ ''Missing.csv'') (Dir Readable [(''data'', Dir Readable [])])) = Inr False"
    by (simp add: os_path_isfile_def resolve_def DATA_DIR_def startswith_def)
  from serve_csv_missing [OF h1 h2 h3, of True None] h1 h2 h3 show ?thesis by simp
qed

section \<open>The entry document\<close>

text \<open>
  C6. When \<^verbatim>\<open>index.html\<close> is absent, the root path is answered 404 with a JSON error
  body, in debug mode or not, and never 500.
\<close>

theorem index_missing:
  assumes "fst (os_path_exists HTML_FILE fs) = Inr False"
  shows "status (fst (serve debug origin GetIndex fs)) = 404
         \<and> body (fst (serve debug origin GetIndex fs)) =
             JsonBody (JObj [(''error'', JStr ''Resource not found'')])
         \<and> status (fst (serve debug origin GetIndex fs)) \<noteq> 500"
proof -
  from assms have "resolve fs ''./index.html'' = None"
    by (simp add: os_path_exists_def resolve_dot_html)
  then have "index fs = (Inl NotFound, fs)"
    by (simp add: index_eq send_from_directory_eq safe_join_html)
  then show ?thesis
    by (simp add: serve_def wsgi_app_def dispatch_request_def handle_exception_def
        not_found_def with_status_def jsonify_def cors_after_request_def)
qed

theorem index_missing_witness:
  "fst (os_path_exists HTML_FILE (Dir Readable [(''data'', Dir Readable [])])) = Inr False
   \<and> status (fst (serve True None GetIndex (Dir Readable [(''data'', Dir Readable [])]))) = 404
   \<and> body (fst (serve True None GetIndex (Dir Readable [(''data'', Dir Readable [])]))) =
       JsonBody (JObj [(''error'', JStr ''Resource not found'')])"
proof -
  have h: "fst (os_path_exists HTML_FILE (Dir Readable [(''data'', Dir Readable [])])) = Inr False"
    by (simp add: os_path_exists_def resolve_def HTML_FILE_def startswith_def)
  from index_missing [OF h, of True None] h show ?thesis by simp
qed

section \<open>The health check\<close>

text \<open>
  C4, as the code has it. Whenever nothing is named \<^verbatim>\<open>data\<close>, or \<^verbatim>\<open>os.listdir\<close>
  gives the listing of \<^verbatim>\<open>data\<close> (a directory that the server may read), the health
  check is answered 200 and its \<^verbatim>\<open>data_files\<close> are that listing, taken at the moment
  of the call, and no names when nothing is named \<^verbatim>\<open>data\<close>. Nothing is kept between
  calls: the answer is a function of the files as they are, so a file that has been
  added is in the next answer.
\<close>

theorem health_lists_data_dir:
  assumes "fst (os_path_exists DATA_DIR fs) = Inr False
           \<or> fst (os_listdir DATA_DIR fs) = Inr names"
  shows "fst (serve debug origin GetHealth fs) =
           cors_after_request origin (jsonify (JObj
             [(''status'', JStr ''healthy''),
              (''version'', JStr ''3.0''),
              (''data_files'', JList (map JStr
                 (if fst (os_path_exists DATA_DIR fs) = Inr False then [] else names)))]))
         \<and> status (fst (serve debug origin GetHealth fs)) = 200"
  using assms
  by (auto simp: serve_def wsgi_app_def dispatch_request_def health_eq os_path_exists_def
      os_listdir_def cors_after_request_def jsonify_def
      split: option.splits node.splits if_splits)

theorem health_lists_data_dir_witness:
  "fst (os_listdir DATA_DIR
         (Dir Readable [(''data'', Dir Readable [(''Tracks.csv'', File Readable [49])])])) =
       Inr [''Tracks.csv'']
   \<and> status (fst (serve True None GetHealth
         (Dir Readable [(''data'', Dir Readable [(''Tracks.csv'', File Readable [49])])]))) = 200
   \<and> body (fst (serve True None GetHealth
         (Dir Readable [(''data'', Dir Readable [(''Tracks.csv'', File Readable [49])])]))) =
       JsonBody (JObj [(''status'', JStr ''healthy''), (''version'', JStr ''3.0''),
                       (''data_files'', JList [JStr ''Tracks.csv''])])
   \<and> fst (os_listdir DATA_DIR
         (Dir Readable [(''data'', Dir Readable [(''Tracks.csv'', File Readable [49]),
                                                  (''New.csv'', File Readable [50])])])) =
       Inr [''Tracks.csv'', ''New.csv'']
   \<and> body (fst (serve True None GetHealth
         (Dir Readable [(''data'', Dir Readable [(''Tracks.csv'', File Readable [49]),
                                                  (''New.csv'', File Readable [50])])]))) =
       JsonBody (JObj [(''status'', JStr ''healthy''), (''version'', JStr ''3.0''),
                       (''data_files'', JList [JStr ''Tracks.csv'', JStr ''New.csv''])])
   \<and> fst (os_path_exists DATA_DIR (Dir Readable [])) = Inr False
   \<and> status (fst (serve True None GetHealth (Dir Readable []))) = 200
   \<and> body (fst (serve True None GetHealth (Dir Readable []))) =
       JsonBody (JObj [(''status'', JStr ''healthy''), (''version'', JStr ''3.0''),
                       (''data_files'', JList [])])"
proof -
  let ?before = "Dir Readable [(''data'', Dir Readable [(''Tracks.csv'', File Readable [49])])]"
  let ?after = "Dir Readable [(''data'', Dir Readable [(''Tracks.csv'', File Readable [49]),
                                                       (''New.csv'', File Readable [50])])]"
  have r1: "resolve ?before DATA_DIR = Some (Dir Readable [(''Tracks.csv'', File Readable [49])])"
    by (simp add: resolve_def DATA_DIR_def startswith_def)
  have r2: "resolve ?after DATA_DIR =
      Some (Dir Readable [(''Tracks.csv'', File Readable [49]), (''New.csv'', File Readable [50])])"
    by (simp add: resolve_def DATA_DIR_def startswith_def)
  have r3: "resolve (Dir Readable []) DATA_DIR = None"
    by (simp add: resolve_def DATA_DIR_def startswith_def)
  have l1: "fst (os_listdir DATA_DIR ?before) = Inr [''Tracks.csv'']"
    by (simp add: os_listdir_def r1)
  have l2: "fst (os_listdir DATA_DIR ?after) = Inr [''Tracks.csv'', ''New.csv'']"
    by (simp add: os_listdir_def r2)
  have e1: "fst (os_path_exists DATA_DIR ?before) = Inr True"
    by (simp add: os_path_exists_def r1)
  have e2: "fst (os_path_exists DATA_DIR ?after) = Inr True"
    by (simp add: os_path_exists_def r2)
  have e3: "fst (os_path_exists DATA_DIR (Dir Readable [])) = Inr False"
    by (simp add: os_path_exists_def r3)
  have h1: "fst (os_path_exists DATA_DIR ?before) = Inr False
      \<or> fst (os_listdir DATA_DIR ?before) = Inr [''Tracks.csv'']"
    using l1 by simp
  have h2: "fst (os_path_exists DATA_DIR ?after) = Inr False
      \<or> fst (os_listdir DATA_DIR ?after) = Inr [''Tracks.csv'', ''New.csv'']"
    using l2 by simp
  have h3: "fst (os_path_exists DATA_DIR (Dir Readable [])) = Inr False
      \<or> fst (os_listdir DATA_DIR (Dir Readable [])) = Inr []"
    using e3 by simp
  from health_lists_data_dir [OF h1, of True None] health_lists_data_dir [OF h2, of True None]
    health_lists_data_dir [OF h3, of True None] l1 l2 e1 e2 e3
  show ?thesis
    by (simp add: cors_after_request_def jsonify_def)
qed

text \<open>
  For every state of the files the property does not hold: \<^verbatim>\<open>os.path.exists\<close> is true
  of whatever is named \<^verbatim>\<open>data\<close>, and the view catches nothing that \<^verbatim>\<open>os.listdir\<close>
  raises. When \<^verbatim>\<open>data\<close> is a regular file that is \<^verbatim>\<open>NotADirectoryError\<close>, when
  it is a directory that the server may not read it is \<^verbatim>\<open>PermissionError\<close>; the
  answer is 500 both times, in debug mode and out of it. The start-up code leaves either
  in place, since it only tests that the path exists.
\<close>

theorem health_not_always_200:
  "status (fst (serve True None GetHealth (Dir Readable [(''data'', File Readable [])]))) = 500
   \<and> status (fst (serve False None GetHealth (Dir Readable [(''data'', File Readable [])]))) = 500
   \<and> status (fst (serve True None GetHealth
         (Dir Readable [(''data'', Dir Unreadable [(''Tracks.csv'', File Readable [49])])]))) = 500
   \<and> status (fst (serve False None GetHealth
         (Dir Readable [(''data'', Dir Unreadable [(''Tracks.csv'', File Readable [49])])]))) = 500"
  by (simp add: serve_def wsgi_app_def dispatch_request_def health_eq resolve_def DATA_DIR_def
      startswith_def handle_exception_def internal_error_def with_status_def jsonify_def
      cors_after_request_def)

text \<open>
  In general: when something is named \<^verbatim>\<open>data\<close> and \<^verbatim>\<open>os.listdir\<close> raises, the
  answer to the health check is 500.
\<close>

lemma health_listing_refused:
  assumes "fst (os_path_exists DATA_DIR fs) = Inr True"
    and "fst (os_listdir DATA_DIR fs) = Inl e"
  shows "status (fst (serve debug origin GetHealth fs)) = 500"
proof -
  from assms(2) have "e = NotADirectoryError \<or> e = PermissionError \<or> e = FileNotFoundError"
    by (auto simp: os_listdir_def split: option.splits node.splits if_splits)
  with health_raises [OF assms] show ?thesis
    by (cases debug)
       (auto simp: serve_def wsgi_app_def dispatch_request_def handle_exception_def
          internal_error_def with_status_def jsonify_def cors_after_request_def)
qed

text \<open>
  C10. Every response that \<open>health\<close> returns has \<^verbatim>\<open>status\<close> \<^verbatim>\<open>"healthy"\<close>,
  \<^verbatim>\<open>version\<close> \<^verbatim>\<open>"3.0"\<close>, and as \<^verbatim>\<open>data_files\<close> the name of every entry of the
  data directory, whatever its extension, none filtered out (no names when nothing is
  named \<^verbatim>\<open>data\<close>); and that response, with the cross-origin header added, is what the
  client is sent. In which states of the files the view returns a response is the
  subject of C4.
\<close>

theorem health_fields:
  assumes "fst (health fs) = Inr r"
  shows "status r = 200
         \<and> body r = JsonBody (JObj
             [(''status'', JStr ''healthy''),
              (''version'', JStr ''3.0''),
              (''data_files'', JList (map JStr
                 (case resolve fs DATA_DIR of Some (Dir a es) \<Rightarrow> map fst es | _ \<Rightarrow> [])))])
         \<and> fst (serve debug origin GetHealth fs) = cors_after_request origin r"
  using assms
  by (auto simp: health_eq jsonify_def serve_def wsgi_app_def dispatch_request_def
      split: option.splits node.splits if_splits)

theorem health_fields_witness:
  "fst (health (Dir Readable [(''data'', Dir Readable [(''Locations.csv'', File Readable [49]),
                                                        (''notes.txt'', File Readable [50])])])) =
     Inr \<lparr>status = 200, mimetype = ''application/json'',
           body = JsonBody (JObj
             [(''status'', JStr ''healthy''), (''version'', JStr ''3.0''),
              (''data_files'', JList [JStr ''Locations.csv'', JStr ''notes.txt''])]),
           headers = []\<rparr>
   \<and> body (fst (serve True None GetHealth
        (Dir Readable [(''data'', Dir Readable [(''Locations.csv'', File Readable [49]),
                                                 (''notes.txt'', File Readable [50])])]))) =
       JsonBody (JObj
         [(''status'', JStr ''healthy''), (''version'', JStr ''3.0''),
          (''data_files'', JList [JStr ''Locations.csv'', JStr ''notes.txt''])])"
proof -
  let ?fs = "Dir Readable [(''data'', Dir Readable [(''Locations.csv'', File Readable [49]),
                                                    (''notes.txt'', File Readable [50])])]"
  let ?r = "\<lparr>status = 200, mimetype = ''application/json'',
           body = JsonBody (JObj
             [(''status'', JStr ''healthy''), (''version'', JStr ''3.0''),
              (''data_files'', JList [JStr ''Locations.csv'', JStr ''notes.txt''])]),
           headers = []\<rparr>"
  have r: "resolve ?fs DATA_DIR =
      Some (Dir Readable [(''Locations.csv'', File Readable [49]), (''notes.txt'', File Readable [50])])"
    by (simp add: resolve_def DATA_DIR_def startswith_def)
  have h: "fst (health ?fs) = Inr ?r"
    by (simp add: health_def bind_io_def os_path_exists_def os_listdir_def return_io_def
        jsonify_def r)
  from health_fields [OF h, of True None] h show ?thesis
    by (simp add: cors_after_request_def)
qed

section \<open>Cross-origin headers\<close>

text \<open>
  C7, as the code has it. Every response that the application itself produces carries
  \<^verbatim>\<open>Access-Control-Allow-Origin\<close>, whatever the route, the files and the origin of the
  request: every response of status 200, 403 or 404, and the 500 of the registered
  handler when the application does not run in debug mode.
\<close>

theorem cors_on_every_app_response:
  assumes "debug \<longrightarrow> status (fst (serve debug origin req fs)) \<noteq> 500"
  shows "map_of (headers (fst (serve debug origin req fs))) ''Access-Control-Allow-Origin'' =
           Some (case origin of None \<Rightarrow> ''*'' | Some org \<Rightarrow> if org = [] then ''*'' else org)"
  using dispatch_request_cases [of req fs] assms
  by (cases debug)
     (auto simp: serve_def wsgi_app_def handle_exception_def cors_after_request_def
        not_found_def internal_error_def with_status_def jsonify_def)

theorem cors_on_every_app_response_witness:
  "status (fst (serve True (Some ''http://localhost:8000'') NoRoute (Dir Readable []))) \<noteq> 500
   \<and> map_of (headers (fst (serve True (Some ''http://localhost:8000'') NoRoute (Dir Readable []))))
        ''Access-Control-Allow-Origin'' = Some ''http://localhost:8000''
   \<and> status (fst (serve False None GetHealth (Dir Readable [(''data'', File Readable [])]))) = 500
   \<and> map_of (headers (fst (serve False None GetHealth (Dir Readable [(''data'', File Readable [])]))))
        ''Access-Control-Allow-Origin'' = Some ''*''
   \<and> map_of (headers (fst (serve False (Some []) GetIndex (Dir Readable []))))
        ''Access-Control-Allow-Origin'' = Some ''*''"
proof -
  have n: "status (fst (serve True (Some ''http://localhost:8000'') NoRoute (Dir Readable []))) \<noteq> 500"
    by (simp add: serve_def wsgi_app_def dispatch_request_def raise_io_def handle_exception_def
        not_found_def with_status_def jsonify_def cors_after_request_def)
  then have h1: "True \<longrightarrow>
      status (fst (serve True (Some ''http://localhost:8000'') NoRoute (Dir Readable []))) \<noteq> 500"
    by simp
  have h2: "False \<longrightarrow> status (fst (serve False None GetHealth (Dir Readable [(''data'', File Readable [])]))) \<noteq> 500"
    by simp
  have s: "status (fst (serve False None GetHealth (Dir Readable [(''data'', File Readable [])]))) = 500"
    by (simp add: serve_def wsgi_app_def dispatch_request_def health_eq resolve_def DATA_DIR_def
        startswith_def handle_exception_def internal_error_def with_status_def jsonify_def
        cors_after_request_def)
  have h3: "False \<longrightarrow> status (fst (serve False (Some []) GetIndex (Dir Readable []))) \<noteq> 500"
    by simp
  from cors_on_every_app_response [OF h1] cors_on_every_app_response [OF h2]
    cors_on_every_app_response [OF h3] n s
  show ?thesis by simp
qed

text \<open>
  In debug mode, as \<^verbatim>\<open>app.run(debug=True)\<close> starts the server, an exception that no
  handler takes leaves the application, and the 500 that the client gets is the page of
  the development server's debugger, which has no cross-origin header.
\<close>

theorem debugger_page_without_cors:
  "status (fst (serve True None GetHealth (Dir Readable [(''data'', File Readable [])]))) = 500
   \<and> headers (fst (serve True None GetHealth (Dir Readable [(''data'', File Readable [])]))) = []"
  by (simp add: serve_def wsgi_app_def dispatch_request_def health_eq resolve_def DATA_DIR_def
      startswith_def handle_exception_def)

section \<open>Effects on the files\<close>

text \<open>
  C8. No view, no error handler and so no request changes a file or a directory: the
  file tree after a request is the file tree before it.
\<close>

theorem handlers_read_only:
  "snd (index fs) = fs \<and> snd (serve_csv filename fs) = fs \<and> snd (health fs) = fs
   \<and> snd (wsgi_app debug origin req fs) = fs \<and> snd (serve debug origin req fs) = fs"
  using dispatch_frame [of GetIndex fs] dispatch_frame [of "GetApi filename" fs]
    dispatch_frame [of GetHealth fs]
  by (simp add: dispatch_request_def wsgi_app_frame serve_frame)

theorem handlers_read_only_witness:
  "snd (serve True None (GetApi ''Locations.csv'')
          (Dir Readable [(''index.html'', File Readable [60]), (''data'', Dir Readable [(''Locations.csv'', File Readable [65])])])) =
     Dir Readable [(''index.html'', File Readable [60]), (''data'', Dir Readable [(''Locations.csv'', File Readable [65])])]
   \<and> snd (health (Dir Readable [(''data'', File Readable [])])) = Dir Readable [(''data'', File Readable [])]"
  using handlers_read_only
          [of "Dir Readable [(''index.html'', File Readable [60]), (''data'', Dir Readable [(''Locations.csv'', File Readable [65])])]"
              "''Locations.csv''" True None "GetApi ''Locations.csv''"]
        handlers_read_only [of "Dir Readable [(''data'', File Readable [])]" "''x''" True None GetHealth]
  by simp

text \<open>
  The one write of the program is at start-up, outside every request: the data directory
  is created when nothing has its name, and otherwise nothing is changed.
\<close>

lemma startup_existing:
  "fst (os_path_exists DATA_DIR fs) = Inr True \<Longrightarrow> startup fs = (Inr (), fs)"
  by (simp add: startup_def bind_io_def os_path_exists_def return_io_def)

lemma startup_creates_data_dir:
  "startup (Dir Readable [(''index.html'', File Readable [])]) =
     (Inr (), Dir Readable [(''index.html'', File Readable []), (''data'', Dir Readable [])])"
  by (simp add: startup_def bind_io_def os_path_exists_def os_makedirs_def resolve_def
      DATA_DIR_def startswith_def)

section \<open>The handlers of \<^verbatim>\<open>FileNotFoundError\<close>\<close>

text \<open>
  C9. The two branches \<^verbatim>\<open>except FileNotFoundError\<close> are never taken:
  \<^verbatim>\<open>send_from_directory\<close> does not raise that exception, neither for the entry
  document nor for a data file, so neither view ever returns its own message, and every
  response of status 404 has the body of the application's handler,
  \<^verbatim>\<open>{"error": "Resource not found"}\<close>.
\<close>

theorem except_branches_unreachable:
  "fst (send_from_directory ''.'' HTML_FILE None fs) \<noteq> Inl FileNotFoundError
   \<and> fst (send_from_directory DATA_DIR filename (Some ''text/csv'') fs) \<noteq> Inl FileNotFoundError
   \<and> fst (index fs) \<noteq>
       Inr (with_status (jsonify (JObj [(''error'', JStr ''index.html not found'')])) 404)
   \<and> fst (serve_csv filename fs) \<noteq>
       Inr (with_status (jsonify (JObj [(''error'', JStr (filename @ '' not found''))])) 404)
   \<and> (status (fst (serve debug origin req fs)) = 404 \<longrightarrow>
        body (fst (serve debug origin req fs)) =
          JsonBody (JObj [(''error'', JStr ''Resource not found'')]))"
proof -
  have a: "fst (index fs) \<noteq>
       Inr (with_status (jsonify (JObj [(''error'', JStr ''index.html not found'')])) 404)"
    by (simp add: index_eq send_from_directory_eq with_status_def jsonify_def
        split: option.splits node.splits)
  have b: "fst (serve_csv filename fs) \<noteq>
       Inr (with_status (jsonify (JObj [(''error'', JStr (filename @ '' not found''))])) 404)"
    by (simp add: serve_csv_eq send_from_directory_eq with_status_def jsonify_def
        split: option.splits node.splits)
  have c: "status (fst (serve debug origin req fs)) = 404 \<longrightarrow>
        body (fst (serve debug origin req fs)) =
          JsonBody (JObj [(''error'', JStr ''Resource not found'')])"
    using dispatch_request_cases [of req fs]
    by (cases debug)
       (auto simp: serve_def wsgi_app_def handle_exception_def cors_after_request_def
          not_found_def internal_error_def with_status_def jsonify_def)
  from a b c send_from_directory_raises show ?thesis by simp
qed

theorem except_branches_unreachable_witness:
  "status (fst (serve True None (GetApi ''Tracks.csv'') (Dir Readable [(''data'', Dir Readable [])]))) = 404
   \<and> body (fst (serve True None (GetApi ''Tracks.csv'') (Dir Readable [(''data'', Dir Readable [])]))) =
       JsonBody (JObj [(''error'', JStr ''Resource not found'')])
   \<and> body (fst (serve True None (GetApi ''Tracks.csv'') (Dir Readable [(''data'', Dir Readable [])]))) \<noteq>
       JsonBody (JObj [(''error'', JStr ''Tracks.csv not found'')])"
proof -
  let ?fs = "Dir Readable [(''data'', Dir Readable [])]"
  have "safe_join DATA_DIR ''Tracks.csv'' = Some ''data/Tracks.csv''"
    by (simp add: safe_join_def DATA_DIR_def normpath_def startswith_def posix_join_def
        endswith_def)
  then have "serve_csv ''Tracks.csv'' ?fs = (Inl NotFound, ?fs)"
    by (simp add: serve_csv_eq endswith_def send_from_directory_eq resolve_def startswith_def)
  then have h: "status (fst (serve True None (GetApi ''Tracks.csv'') ?fs)) = 404"
    by (simp add: serve_def wsgi_app_def dispatch_request_def handle_exception_def
        not_found_def with_status_def jsonify_def cors_after_request_def)
  from except_branches_unreachable [of ?fs "''Tracks.csv''" True None "GetApi ''Tracks.csv''"] h
  show ?thesis by simp
qed

end
